theory Spec2Isabelle
  imports Main "HOL-Library.Multiset"
begin

section \<open>Data model\<close>

text \<open>
  The notebooks compute, for a sampled submission and each defect found in it, a column
  called \<open>last encountered\<close>. The inputs are three pandas frames: \<open>log\<close> (one row per
  submission, labelled by its index), \<open>defect_log\<close> (same labels, one count column per defect)
  and, derived from them inside the loop, \<open>defect_history\<close>.
\<close>

text \<open>The only exception the modelled expressions can raise: \<open>.iloc[-1]\<close> on an empty
  Series.\<close>

datatype error = IndexError

text \<open>
  A float64 cell. \<open>Series.where\<close> introduces NaN, which turns the integer running sum
  into float64; every number that occurs is an integer of magnitude at most the history
  length, which float64 holds exactly. \<open>None\<close> is NaN, \<open>Some v\<close> the float with value \<open>v\<close>.
\<close>

type_synonym cell = "int option"

text \<open>A row of \<open>defect_history\<close> after \<open>.astype(bool)\<close>: one flag per defect column.
  The frame is the list of its rows in positional order; after \<open>reset_index(drop=True)\<close> its
  index is the range \<open>0 .. n - 1\<close>.\<close>

type_synonym 'd row = "'d \<Rightarrow> bool"
type_synonym 'd frame = "'d row list"

text \<open>A row of \<open>log\<close>, with the columns the sampling loops read. \<open>time\<close> is a timestamp
  on a linear scale; rows with a missing value are dropped when the log is loaded
  (\<open>log.dropna\<close>), so no row carries a missing time.\<close>

record submission =
  user :: nat
  item :: nat
  answer :: string
  time :: int

text \<open>\<open>log\<close>: rows in frame order, each with its index label. \<open>defect_log\<close>: the count of
  each defect for each index label (it is reindexed to \<open>log.index\<close> when loaded, so
  \<open>defect_log.loc\<close> with a list of labels returns one row per label, in the order of the
  list).\<close>

type_synonym log = "(nat \<times> submission) list"
type_synonym 'd defect_log = "nat \<Rightarrow> 'd \<Rightarrow> nat"

section \<open>The pandas operations the expression uses\<close>

text \<open>\<open>defect_history[defect]\<close>: the boolean column of one defect.\<close>

definition column :: "'d frame \<Rightarrow> 'd \<Rightarrow> bool list" where
  "column defect_history defect = map (\<lambda>r. r defect) defect_history"

text \<open>\<open>defect_history.index\<close>: the positions \<open>0 .. n - 1\<close>.\<close>

definition frame_index :: "'d frame \<Rightarrow> int list" where
  "frame_index defect_history = map int [0..<length defect_history]"

text \<open>\<open>Series.cumsum()\<close> on a boolean Series: the running count of \<open>True\<close>, as integers.\<close>

fun cumsum_from :: "int \<Rightarrow> bool list \<Rightarrow> int list" where
  "cumsum_from acc [] = []"
| "cumsum_from acc (b # bs) =
     (let acc' = acc + (if b then 1 else 0) in acc' # cumsum_from acc' bs)"

definition cumsum :: "bool list \<Rightarrow> int list" where
  "cumsum bs = cumsum_from 0 bs"

text \<open>\<open>Series.where(cond)\<close>: keeps the value where the condition holds, NaN elsewhere.
  Both Series carry the same index, so the alignment is positional.\<close>

definition where_cond :: "int list \<Rightarrow> bool list \<Rightarrow> cell list" where
  "where_cond vs cond = map (\<lambda>(v, c). if c then Some v else None) (zip vs cond)"

text \<open>\<open>Series.ffill()\<close>: a NaN takes the last value before it that is not NaN; NaN
  before the first such value stays.\<close>

fun ffill_from :: "cell \<Rightarrow> cell list \<Rightarrow> cell list" where
  "ffill_from prev [] = []"
| "ffill_from prev (c # cs) =
     (let cur = (case c of None \<Rightarrow> prev | Some v \<Rightarrow> Some v) in cur # ffill_from cur cs)"

definition ffill :: "cell list \<Rightarrow> cell list" where
  "ffill cs = ffill_from None cs"

text \<open>\<open>index - series\<close>: elementwise, NaN stays NaN.\<close>

definition index_sub :: "int list \<Rightarrow> cell list \<Rightarrow> cell list" where
  "index_sub idx cs = map (\<lambda>(i, c). map_option (\<lambda>v. i - v) c) (zip idx cs)"

text \<open>\<open>.iloc[-1]\<close>: the last element; IndexError on an empty Series.\<close>

definition iloc_last :: "'a list \<Rightarrow> error + 'a" where
  "iloc_last xs = (if xs = [] then Inl IndexError else Inr (last xs))"

section \<open>The \<open>last encountered\<close> expression\<close>

text \<open>
  sample_collection.ipynb, line 206:
  \<^verbatim>\<open>(defect_history.index - defect_history[defect].cumsum().where(defect_history[defect]).ffill()).iloc[-1]\<close>
\<close>

definition last_encountered :: "'d frame \<Rightarrow> 'd \<Rightarrow> error + cell" where
  "last_encountered defect_history defect =
     iloc_last (index_sub (frame_index defect_history)
       (ffill (where_cond (cumsum (column defect_history defect))
                          (column defect_history defect))))"

text \<open>
  The same expression stands, character for character, at three more places.
  unnamed/part_000, line 97 (inside the sampling loop):
\<close>

definition last_encountered_part_000 :: "'d frame \<Rightarrow> 'd \<Rightarrow> error + cell" where
  "last_encountered_part_000 defect_history defect =
     iloc_last (index_sub (frame_index defect_history)
       (ffill (where_cond (cumsum (column defect_history defect))
                          (column defect_history defect))))"

text \<open>survey_sample_collection.ipynb, line 137 (inside \<open>create_export_dataframes\<close>):\<close>

definition last_encountered_create_export_dataframes :: "'d frame \<Rightarrow> 'd \<Rightarrow> error + cell" where
  "last_encountered_create_export_dataframes defect_history defect =
     iloc_last (index_sub (frame_index defect_history)
       (ffill (where_cond (cumsum (column defect_history defect))
                          (column defect_history defect))))"

text \<open>survey_sample_collection.ipynb, line 411 (a cell of its own under the heading
  \<open>student history\<close>):\<close>

definition last_encountered_student_history :: "'d frame \<Rightarrow> 'd \<Rightarrow> error + cell" where
  "last_encountered_student_history defect_history defect =
     iloc_last (index_sub (frame_index defect_history)
       (ffill (where_cond (cumsum (column defect_history defect))
                          (column defect_history defect))))"

text \<open>The number of rows of the history in which the defect is flagged.\<close>

definition flag_count :: "'d frame \<Rightarrow> 'd \<Rightarrow> nat" where
  "flag_count defect_history defect = length (filter (\<lambda>r. r defect) defect_history)"

section \<open>Building \<open>defect_history\<close>\<close>

text \<open>
  unnamed/part_000, lines 82-84 (the same statement stands in sample_collection.ipynb,
  lines 192-194, and twice in survey_sample_collection.ipynb):
  \<^verbatim>\<open>defect_history = defect_log.loc[
      log[(log['user'] == row['user']) & (log['time'] <= row['time'])].sort_values(by='time').index
  ].reset_index(drop=True).astype(bool)\<close>

  \<open>sort_values(by='time')\<close> is called with the default sort kind, for which pandas
  promises no order among rows of equal time. The sort is therefore a parameter here;
  \<open>sort_values_stable\<close> is the instance that keeps the frame order among equal times.
\<close>

definition user_history :: "(log \<Rightarrow> log) \<Rightarrow> log \<Rightarrow> submission \<Rightarrow> log" where
  "user_history sort_values log row =
     sort_values (filter (\<lambda>(i, r). user r = user row \<and> time r \<le> time row) log)"

definition defect_history :: "(log \<Rightarrow> log) \<Rightarrow> 'd defect_log \<Rightarrow> log \<Rightarrow> submission \<Rightarrow> 'd frame" where
  "defect_history sort_values defect_log log row =
     map (\<lambda>(i, r). \<lambda>d. 0 < defect_log i d) (user_history sort_values log row)"

definition sort_values_stable :: "log \<Rightarrow> log" where
  "sort_values_stable = sort_key (\<lambda>(i, r). time r)"

section \<open>Properties of the pandas operations\<close>

lemma length_cumsum_from: "length (cumsum_from acc bs) = length bs"
  by (induction bs arbitrary: acc) (simp_all add: Let_def)

lemma length_ffill_from: "length (ffill_from prev cs) = length cs"
  by (induction cs arbitrary: prev) (simp_all add: Let_def)

lemma where_cond_Cons:
  "where_cond (v # vs) (c # cs) = (if c then Some v else None) # where_cond vs cs"
  by (simp add: where_cond_def)

lemma where_cond_Nil: "where_cond vs [] = []"
  by (simp add: where_cond_def)

lemma length_where_cumsum: "length (where_cond (cumsum_from acc bs) bs) = length bs"
  by (simp add: where_cond_def length_cumsum_from)

text \<open>The filled running count at the last position: the number of flags set in the whole
  column, or what was carried in when none is set.\<close>

lemma last_ffill_where_cumsum:
  "bs \<noteq> [] \<Longrightarrow>
   last (ffill_from prev (where_cond (cumsum_from acc bs) bs)) =
     (if filter id bs = [] then prev else Some (acc + int (length (filter id bs))))"
proof (induction bs arbitrary: prev acc)
  case Nil
  then show ?case by simp
next
  case (Cons b bs)
  show ?case
  proof (cases "bs = []")
    case True
    then show ?thesis by (simp add: where_cond_def Let_def)
  next
    case False
    let ?acc = "acc + (if b then 1 else 0)"
    let ?cur = "if b then Some ?acc else prev"
    have ne: "ffill_from ?cur (where_cond (cumsum_from ?acc bs) bs) \<noteq> []"
      using False length_ffill_from [of ?cur "where_cond (cumsum_from ?acc bs) bs"]
        length_where_cumsum [of ?acc bs]
      by (metis length_0_conv)
    have step: "ffill_from prev (where_cond (cumsum_from acc (b # bs)) (b # bs)) =
          ?cur # ffill_from ?cur (where_cond (cumsum_from ?acc bs) bs)"
      by (cases b) (simp_all add: Let_def where_cond_Cons)
    have "last (ffill_from prev (where_cond (cumsum_from acc (b # bs)) (b # bs))) =
          last (ffill_from ?cur (where_cond (cumsum_from ?acc bs) bs))"
      unfolding step using ne by simp
    also have "\<dots> = (if filter id bs = [] then ?cur
                     else Some (?acc + int (length (filter id bs))))"
      using Cons.IH [OF False] .
    also have "\<dots> = (if filter id (b # bs) = [] then prev
                     else Some (acc + int (length (filter id (b # bs)))))"
      by (cases b) simp_all
    finally show ?thesis .
  qed
qed

lemma last_index_sub:
  assumes "idx \<noteq> []" and "length idx = length cs"
  shows "last (index_sub idx cs) = map_option (\<lambda>v. last idx - v) (last cs)"
proof -
  from assms have cs: "cs \<noteq> []" by auto
  with assms have z: "zip idx cs \<noteq> []" by (cases idx; cases cs) simp_all
  have "last (zip idx cs) = (last idx, last cs)"
    using assms cs by (simp add: last_zip)
  with z show ?thesis by (simp add: index_sub_def last_map)
qed

lemma index_sub_Nil: "index_sub [] cs = []"
  by (simp add: index_sub_def)

lemma last_frame_index:
  "history \<noteq> [] \<Longrightarrow> last (frame_index history) = int (length history) - 1"
  by (simp add: frame_index_def last_map of_nat_diff Suc_leI)

text \<open>
  The complete behaviour of the expression. On an empty history the positional lookup
  raises. Otherwise the value is NaN when the flag is nowhere set, and the last position
  minus the number of flags set when it is set somewhere.
\<close>

lemma filter_id_column:
  "length (filter id (column history defect)) = flag_count history defect"
  by (simp add: column_def flag_count_def filter_map o_def)

lemma expression_value:
  assumes "history \<noteq> []"
  shows "iloc_last (index_sub (frame_index history)
           (ffill (where_cond (cumsum (column history defect))
                              (column history defect)))) =
         Inr (if flag_count history defect = 0 then None
              else Some (int (length history) - 1
                         - int (flag_count history defect)))"
proof -
  let ?bs = "column history defect"
  let ?filled = "ffill (where_cond (cumsum ?bs) ?bs)"
  have bs: "?bs \<noteq> []" using assms by (simp add: column_def)
  have len: "length (frame_index history) = length ?filled"
    by (simp add: frame_index_def ffill_def cumsum_def length_ffill_from
        length_where_cumsum column_def)
  have idx: "frame_index history \<noteq> []"
    using assms by (simp add: frame_index_def)
  have ne: "index_sub (frame_index history) ?filled \<noteq> []"
    using idx len by (cases "frame_index history"; cases ?filled)
      (simp_all add: index_sub_def)
  have filled: "last ?filled =
      (if flag_count history defect = 0 then None
       else Some (int (flag_count history defect)))"
    using last_ffill_where_cumsum [OF bs, of None 0]
    by (simp add: ffill_def cumsum_def filter_id_column [symmetric])
  show ?thesis
    using ne by (simp add: iloc_last_def last_index_sub [OF idx len] filled
        last_frame_index [OF assms])
qed

lemma expression_empty:
  "iloc_last (index_sub (frame_index [])
     (ffill (where_cond (cumsum (column [] defect)) (column [] defect)))) = Inl IndexError"
  by (simp add: iloc_last_def frame_index_def index_sub_def)

lemma last_encountered_value:
  "history \<noteq> [] \<Longrightarrow>
   last_encountered history defect =
     Inr (if flag_count history defect = 0 then None
          else Some (int (length history) - 1 - int (flag_count history defect)))"
  unfolding last_encountered_def by (rule expression_value)

lemma last_encountered_part_000_value:
  "history \<noteq> [] \<Longrightarrow>
   last_encountered_part_000 history defect =
     Inr (if flag_count history defect = 0 then None
          else Some (int (length history) - 1 - int (flag_count history defect)))"
  unfolding last_encountered_part_000_def by (rule expression_value)

lemma flag_count_pos: "history \<noteq> [] \<Longrightarrow> last history defect \<Longrightarrow> 0 < flag_count history defect"
proof -
  assume ne: "history \<noteq> []" and flagged: "last history defect"
  from ne have "last history \<in> set history" by simp
  with flagged have "filter (\<lambda>r. r defect) history \<noteq> []"
    by (auto simp: filter_empty_conv)
  then show ?thesis by (simp add: flag_count_def)
qed

lemma flag_count_split:
  "int (length history) - int (flag_count history defect) =
   int (length (filter (\<lambda>r. \<not> r defect) history))"
  using sum_length_filter_compl [of "\<lambda>r. r defect" history]
  by (simp add: flag_count_def)

lemma flag_count_all: "list_all (\<lambda>r. r defect) history \<Longrightarrow> flag_count history defect = length history"
  by (simp add: flag_count_def list_all_iff)

section \<open>What the expression computes\<close>

text \<open>
  C3. For every truncated history whose last (target) row has the defect flagged, the
  expression evaluates to (length of the history - 1) - (number of rows where the flag is
  set), which is the number of rows without the flag minus one; it is -1 whenever the flag
  is set in every row, as in the history of length one.
\<close>

theorem last_encountered_counts_unflagged_rows:
  assumes "history \<noteq> []" and "last history defect"
  shows "last_encountered history defect =
           Inr (Some (int (length history) - 1 - int (flag_count history defect))) \<and>
         last_encountered history defect =
           Inr (Some (int (length (filter (\<lambda>r. \<not> r defect) history)) - 1)) \<and>
         (list_all (\<lambda>r. r defect) history \<longrightarrow>
            last_encountered history defect = Inr (Some (- 1)))"
proof -
  have pos: "0 < flag_count history defect"
    using assms by (rule flag_count_pos)
  have v: "last_encountered history defect =
      Inr (Some (int (length history) - 1 - int (flag_count history defect)))"
    using last_encountered_value [OF assms(1), of defect] pos by simp
  have "int (length history) - 1 - int (flag_count history defect) =
        int (length (filter (\<lambda>r. \<not> r defect) history)) - 1"
    using flag_count_split [of history defect] by simp
  with v have w: "last_encountered history defect =
      Inr (Some (int (length (filter (\<lambda>r. \<not> r defect) history)) - 1))" by simp
  have "list_all (\<lambda>r. r defect) history \<longrightarrow>
      last_encountered history defect = Inr (Some (- 1))"
    using v by (simp add: flag_count_all)
  with v w show ?thesis by simp
qed

theorem last_encountered_counts_unflagged_rows_witness:
  "last_encountered [\<lambda>_::unit. True] () = Inr (Some (- 1)) \<and>
   last_encountered [\<lambda>_::unit. False, \<lambda>_. True, \<lambda>_. False, \<lambda>_. True] () = Inr (Some 1)"
proof -
  have a: "last_encountered [\<lambda>_::unit. True] () = Inr (Some (- 1))"
    using last_encountered_counts_unflagged_rows [of "[\<lambda>_::unit. True]" "()"]
    by (simp add: flag_count_def)
  have b: "last_encountered [\<lambda>_::unit. False, \<lambda>_. True, \<lambda>_. False, \<lambda>_. True] () =
      Inr (Some 1)"
    using last_encountered_counts_unflagged_rows
      [of "[\<lambda>_::unit. False, \<lambda>_. True, \<lambda>_. False, \<lambda>_. True]" "()"]
    by (simp add: flag_count_def)
  from a b show ?thesis by simp
qed

text \<open>
  C1. The claim: when the defect occurs at position k, not again strictly between k and
  the target position t, and at t, the value is t - k. The code subtracts the number of
  flagged rows, not the position of the previous one: with the flag at positions 0 and 2
  and nowhere else, k = 0 and t = 2, the claim gives 2 and the expression gives 0.
\<close>

theorem last_encountered_flag_at_0_and_2:
  "last_encountered [\<lambda>_::unit. True, \<lambda>_. False, \<lambda>_. True] () = Inr (Some 0)"
  by (simp add: last_encountered_value flag_count_def)

text \<open>
  C4. The claim: with the flag at positions 3 and 7 only and the target at position 7
  (history of length 8), the value is 7 - 3 = 4. The expression gives 7 - 2 = 5.
\<close>

theorem last_encountered_flag_at_3_and_7:
  "last_encountered
     [\<lambda>_::unit. False, \<lambda>_. False, \<lambda>_. False, \<lambda>_. True,
      \<lambda>_. False, \<lambda>_. False, \<lambda>_. False, \<lambda>_. True] () = Inr (Some 5)"
  by (simp add: last_encountered_value flag_count_def)

text \<open>
  C5. The claim, for the flags [1,0,0,1,0,1]: the value at target 5 is 2, the value of the
  history truncated at target 3 is 3, and the value of the history truncated at target 0
  is the first-occurrence fallback (the target's own position, 0). The expression gives 2
  at target 5, but 1 for the history truncated at 3 and -1 for the history truncated at 0.
\<close>

theorem last_encountered_scenario:
  "last_encountered
     [\<lambda>_::unit. True, \<lambda>_. False, \<lambda>_. False, \<lambda>_. True, \<lambda>_. False, \<lambda>_. True] ()
     = Inr (Some 2) \<and>
   last_encountered [\<lambda>_::unit. True, \<lambda>_. False, \<lambda>_. False, \<lambda>_. True] () = Inr (Some 1) \<and>
   last_encountered [\<lambda>_::unit. True] () = Inr (Some (- 1))"
  by (simp add: last_encountered_value flag_count_def)

text \<open>
  C6. The claim: for a history that holds the target submission alone, the value is the
  first-occurrence fallback for every defect present in the target. The expression gives
  -1 for every such defect: position 0 minus one flagged row.
\<close>

theorem last_encountered_single_submission:
  "last_encountered_part_000 [\<lambda>_. True] defect = Inr (Some (- 1))"
  by (simp add: last_encountered_part_000_value flag_count_def)

text \<open>
  C10. The four copies of the expression (unnamed/part_000, sample_collection.ipynb, and
  the two in survey_sample_collection.ipynb) are the same function: on every history and
  every defect they return the same result, the IndexError on the empty history included.
\<close>

theorem last_encountered_copies_agree:
  "last_encountered_part_000 history defect = last_encountered history defect \<and>
   last_encountered_create_export_dataframes history defect = last_encountered history defect \<and>
   last_encountered_student_history history defect = last_encountered history defect"
  by (simp add: last_encountered_def last_encountered_part_000_def
      last_encountered_create_export_dataframes_def last_encountered_student_history_def)

section \<open>First occurrences and failure\<close>

text \<open>
  C2. The claim: when the target position holds the first-ever occurrence of the defect,
  the value is the fallback, the target's own position, and no computed distance equals
  it. With the flag at position 2 alone (history of length 3, target position 2) the claim
  gives 2. The expression has no branch for this case; it gives 2 minus one flagged row,
  which is 1.
\<close>

theorem last_encountered_first_occurrence_at_2:
  "last_encountered [\<lambda>_::unit. False, \<lambda>_. False, \<lambda>_. True] () = Inr (Some 1)"
  by (simp add: last_encountered_value flag_count_def)

text \<open>
  C7, as the code has it. The claim says the computation fails when the defect is not
  flagged at the target. The expression takes no target position and checks no flag: it
  reads the last row. With the flag at position 0 and not at the last position 1 it
  returns 0, and with no flag at all it returns NaN; neither raises.
\<close>

theorem unflagged_target_does_not_fail:
  "last_encountered [\<lambda>_::unit. True, \<lambda>_. False] () = Inr (Some 0) \<and>
   last_encountered [\<lambda>_::unit. False] () = Inr None"
  by (simp add: last_encountered_value flag_count_def)

text \<open>
  C7, amended. The expression raises (the IndexError of the positional lookup) if and only
  if the history is empty. On a non-empty history it returns a cell, which is NaN exactly
  when the defect is flagged in no row; in particular, when the defect is flagged in the
  last row it succeeds and returns a number.
\<close>

theorem last_encountered_fails_only_on_empty:
  "(last_encountered history defect = Inl IndexError \<longleftrightarrow> history = []) \<and>
   (history \<noteq> [] \<longrightarrow>
      (\<exists>c. last_encountered history defect = Inr c \<and>
           (c = None \<longleftrightarrow> list_all (\<lambda>r. \<not> r defect) history))) \<and>
   (history \<noteq> [] \<longrightarrow> last history defect \<longrightarrow>
      (\<exists>v. last_encountered history defect = Inr (Some v)))"
proof -
  have empty: "last_encountered [] defect = Inl IndexError"
    unfolding last_encountered_def by (rule expression_empty)
  have zero: "flag_count history defect = 0 \<longleftrightarrow> list_all (\<lambda>r. \<not> r defect) history"
    by (simp add: flag_count_def filter_empty_conv list_all_iff)
  have one: "last_encountered history defect = Inl IndexError \<longleftrightarrow> history = []"
  proof (cases "history = []")
    case True
    with empty show ?thesis by simp
  next
    case False
    then show ?thesis using last_encountered_value [OF False, of defect] by simp
  qed
  have two: "history \<noteq> [] \<longrightarrow>
      (\<exists>c. last_encountered history defect = Inr c \<and>
           (c = None \<longleftrightarrow> list_all (\<lambda>r. \<not> r defect) history))"
  proof
    assume ne: "history \<noteq> []"
    show "\<exists>c. last_encountered history defect = Inr c \<and>
           (c = None \<longleftrightarrow> list_all (\<lambda>r. \<not> r defect) history)"
      using last_encountered_value [OF ne, of defect] zero by simp
  qed
  have three: "history \<noteq> [] \<longrightarrow> last history defect \<longrightarrow>
      (\<exists>v. last_encountered history defect = Inr (Some v))"
  proof (intro impI)
    assume ne: "history \<noteq> []" and fl: "last history defect"
    have "0 < flag_count history defect" using ne fl by (rule flag_count_pos)
    then show "\<exists>v. last_encountered history defect = Inr (Some v)"
      using last_encountered_value [OF ne, of defect] by simp
  qed
  from one two three show ?thesis by blast
qed

theorem last_encountered_fails_only_on_empty_witness:
  "last_encountered ([] :: unit frame) () = Inl IndexError \<and>
   last_encountered [\<lambda>_::unit. False, \<lambda>_. False] () = Inr None \<and>
   (\<exists>v. last_encountered [\<lambda>_::unit. False, \<lambda>_. True] () = Inr (Some v))"
proof -
  have a: "last_encountered ([] :: unit frame) () = Inl IndexError"
    using last_encountered_fails_only_on_empty [of "[] :: unit frame" "()"] by simp
  have b: "last_encountered [\<lambda>_::unit. False, \<lambda>_. False] () = Inr None"
    using last_encountered_fails_only_on_empty [of "[\<lambda>_::unit. False, \<lambda>_. False]" "()"]
    by auto
  have c: "\<exists>v. last_encountered [\<lambda>_::unit. False, \<lambda>_. True] () = Inr (Some v)"
    using last_encountered_fails_only_on_empty [of "[\<lambda>_::unit. False, \<lambda>_. True]" "()"]
    by simp
  from a b c show ?thesis by simp
qed

section \<open>The history that is scanned\<close>

lemma sorted_le_last:
  fixes xs :: "int list"
  shows "sorted xs \<Longrightarrow> x \<in> set xs \<Longrightarrow> x \<le> last xs"
proof (induction xs)
  case Nil
  then show ?case by simp
next
  case (Cons y ys)
  show ?case
  proof (cases "ys = []")
    case True
    with Cons.prems show ?thesis by simp
  next
    case False
    have "last ys \<in> set ys" using False by simp
    with Cons.prems(1) have "y \<le> last ys" by auto
    moreover have "x \<in> set ys \<Longrightarrow> x \<le> last ys"
      using Cons.IH Cons.prems(1) by simp
    ultimately show ?thesis using Cons.prems(2) False by auto
  qed
qed

lemma sort_values_stable_sorts:
  "mset (sort_values_stable xs) = mset xs \<and>
   sorted (map (\<lambda>(i, r). time r) (sort_values_stable xs))"
  by (simp add: sort_values_stable_def)

text \<open>
  C8, as the code has it. The claim puts the target at the last index of the scanned
  history. Two submissions of one student with the same time are both kept by the filter
  \<open>time \<le> row['time']\<close>; with the order of the frame kept among equal times, the target
  with label 0 comes first and the last row is the submission with label 1.
\<close>

theorem target_not_last_on_equal_times:
  "map fst (user_history sort_values_stable
      [(0, \<lparr>user = 1, item = 1, answer = [], time = 5\<rparr>),
       (1, \<lparr>user = 1, item = 2, answer = [], time = 5\<rparr>)]
      \<lparr>user = 1, item = 1, answer = [], time = 5\<rparr>) = [0, 1]"
  by (simp add: user_history_def sort_values_stable_def)

text \<open>Whatever order the sort gives to equal times, one of the two submissions is a target
  that is not last: the filter keeps the same two rows for both.\<close>

lemma some_target_not_last_on_equal_times:
  "\<not> (last (user_history sv
          [(0, \<lparr>user = 1, item = 1, answer = [], time = 5\<rparr>),
           (1, \<lparr>user = 1, item = 2, answer = [], time = 5\<rparr>)]
          \<lparr>user = 1, item = 1, answer = [], time = 5\<rparr>)
        = (0, \<lparr>user = 1, item = 1, answer = [], time = 5\<rparr>) \<and>
      last (user_history sv
          [(0, \<lparr>user = 1, item = 1, answer = [], time = 5\<rparr>),
           (1, \<lparr>user = 1, item = 2, answer = [], time = 5\<rparr>)]
          \<lparr>user = 1, item = 2, answer = [], time = 5\<rparr>)
        = (1, \<lparr>user = 1, item = 2, answer = [], time = 5\<rparr>))"
  by (simp add: user_history_def)

text \<open>
  C8, amended. For every evaluation, with any sort that returns its rows in non-decreasing
  time, the scanned history holds exactly the student's records with time at most the
  target's (the target among them, each as often as in the log), in non-decreasing time,
  and \<open>defect_history\<close> is their rows of \<open>defect_log\<close> as flags, in that order. The target
  is at the last index when no other record of that student has the target's time.
\<close>

theorem defect_history_is_user_prefix:
  assumes sv: "\<And>xs. mset (sv xs) = mset xs \<and> sorted (map (\<lambda>(i, r). time r) (sv xs))"
    and target: "(idx, row) \<in> set log"
  shows "mset (user_history sv log row) =
           mset (filter (\<lambda>(i, r). user r = user row \<and> time r \<le> time row) log) \<and>
         sorted (map (\<lambda>(i, r). time r) (user_history sv log row)) \<and>
         (idx, row) \<in> set (user_history sv log row) \<and>
         defect_history sv defect_log log row =
           map (\<lambda>(i, r). \<lambda>d. 0 < defect_log i d) (user_history sv log row) \<and>
         (list_all (\<lambda>(i, r). user r \<noteq> user row \<or> time r \<noteq> time row \<or> (i, r) = (idx, row)) log
            \<longrightarrow> last (user_history sv log row) = (idx, row))"
proof -
  let ?keep = "\<lambda>(i, r). user r = user row \<and> time r \<le> time row"
  let ?h = "user_history sv log row"
  have m: "mset ?h = mset (filter ?keep log)"
    using sv by (simp add: user_history_def)
  have srt: "sorted (map (\<lambda>(i, r). time r) ?h)"
    using sv by (simp add: user_history_def)
  have st: "set ?h = set (filter ?keep log)"
    using m by (rule mset_eq_setD)
  have mem: "(idx, row) \<in> set ?h"
    using target by (simp add: st)
  have dh: "defect_history sv defect_log log row =
      map (\<lambda>(i, r). \<lambda>d. 0 < defect_log i d) ?h"
    by (simp add: defect_history_def)
  have lst: "last ?h = (idx, row)"
    if alone: "list_all (\<lambda>(i, r). user r \<noteq> user row \<or> time r \<noteq> time row \<or> (i, r) = (idx, row)) log"
  proof -
    obtain j q where jq: "last ?h = (j, q)" by (cases "last ?h")
    have ne: "?h \<noteq> []" using mem by auto
    then have "(j, q) \<in> set ?h" using jq last_in_set [OF ne] by simp
    then have inlog: "(j, q) \<in> set log" and u: "user q = user row" and le: "time q \<le> time row"
      by (auto simp: st)
    have "time row \<in> set (map (\<lambda>(i, r). time r) ?h)"
      using mem by force
    then have "time row \<le> last (map (\<lambda>(i, r). time r) ?h)"
      using srt by (simp add: sorted_le_last)
    also have "last (map (\<lambda>(i, r). time r) ?h) = time q"
      using ne jq by (simp add: last_map)
    finally have "time q = time row" using le by simp
    with alone inlog u have "(j, q) = (idx, row)"
      by (auto simp: list_all_iff)
    with jq show ?thesis by simp
  qed
  from m srt mem dh lst show ?thesis by blast
qed

theorem defect_history_is_user_prefix_witness:
  "last (user_history sort_values_stable
      [(0, \<lparr>user = 1, item = 1, answer = [], time = 7\<rparr>),
       (1, \<lparr>user = 2, item = 1, answer = [], time = 3\<rparr>),
       (2, \<lparr>user = 1, item = 2, answer = [], time = 5\<rparr>),
       (3, \<lparr>user = 1, item = 3, answer = [], time = 9\<rparr>)]
      \<lparr>user = 1, item = 1, answer = [], time = 7\<rparr>)
   = (0, \<lparr>user = 1, item = 1, answer = [], time = 7\<rparr>)"
  using defect_history_is_user_prefix
    [where sv = sort_values_stable and idx = 0
       and row = "\<lparr>user = 1, item = 1, answer = [], time = 7\<rparr>"
       and log = "[(0, \<lparr>user = 1, item = 1, answer = [], time = 7\<rparr>),
          (1, \<lparr>user = 2, item = 1, answer = [], time = 3\<rparr>),
          (2, \<lparr>user = 1, item = 2, answer = [], time = 5\<rparr>),
          (3, \<lparr>user = 1, item = 3, answer = [], time = 9\<rparr>)]"
       and defect_log = "\<lambda>i (d::unit). i",
     OF sort_values_stable_sorts]
  by simp

end
